theory Spec2Isabelle
  imports Complex_Main "HOL-Library.List_Lexorder" "HOL-Library.Char_ord"
begin

section \<open>Met lightning geo location events\<close>

text \<open>
  A shallow embedding of \<^verbatim>\<open>homeassistant/components/met/geo_location.py\<close>.

  Conventions of the embedding:
  \<^item> Python numbers (coordinates, radius, distances) are idealised as \<^typ>\<open>real\<close>;
    the float division \<^verbatim>\<open>strike["distance"] / 1000.0\<close> is real division.
  \<^item> A Python \<^verbatim>\<open>set\<close> of strike identifiers is a \<^typ>\<open>string set\<close>, the
    \<^verbatim>\<open>dict\<close> of fetched strikes a map from identifiers to strikes.
  \<^item> Python iterates a set in an unspecified order; the loops of the model run over the
    sorted enumeration of the set. Nothing proved below depends on that order.
  \<^item> A raised exception is a value of \<open>error\<close>; a function that mutates
    \<^verbatim>\<open>self\<close> or calls the host returns the exception (if any), the state as it
    is at that moment and the calls it made, in order.
  \<^item> The \<^verbatim>\<open>_LOGGER.debug\<close> calls are not part of the model.
\<close>

subsection \<open>Data\<close>

type_synonym strike_id = string

text \<open>
  One entry of the provider's response, \<^verbatim>\<open>{"distance", "lat", "long", "date"}\<close>:
  the four keys \<^verbatim>\<open>_create_events\<close> reads.
\<close>

record strike =
  strike_distance :: real
  strike_lat :: real
  strike_long :: real
  strike_date :: string

type_synonym strikes = "strike_id \<rightharpoonup> strike"

text \<open>\<^verbatim>\<open>class MetLightningEvent\<close>: the attributes set by \<^verbatim>\<open>__init__\<close>.\<close>

record MetLightningEvent =
  ev_distance :: real
  ev_latitude :: real
  ev_longitude :: real
  ev_publication_date :: string
  ev_strike_id :: strike_id

datatype conf_key = CONF_RADIUS | CONF_LATITUDE | CONF_LONGITUDE

datatype error =
    ProviderError string
  | KeyError strike_id
  | ConfKeyError conf_key

text \<open>
  The calls to external collaborators, in the order they are made:
  \<^verbatim>\<open>self._client.within_radius(lat, lon, radius)\<close>,
  \<^verbatim>\<open>async_dispatcher_send(hass, signal)\<close>,
  \<^verbatim>\<open>self._async_add_entities(events)\<close> and
  \<^verbatim>\<open>async_track_time_interval(hass, update, interval)\<close> (interval in minutes).
\<close>

datatype effect =
    WithinRadius real real real
  | DispatcherSend string
  | AddEntities "MetLightningEvent list"
  | TrackTimeInterval nat

text \<open>
  The provider client for one call: what \<^verbatim>\<open>within_radius\<close> answers to the given
  latitude, longitude and radius, a mapping of strikes or an error.
\<close>

type_synonym client = "real \<Rightarrow> real \<Rightarrow> real \<Rightarrow> error + strikes"

record MetLightningEventManager =
  mgr_latitude :: real
  mgr_longitude :: real
  mgr_managed_strike_ids :: "strike_id set"
  mgr_radius :: real
  mgr_strikes :: strikes

record 'a outcome =
  raised :: "error option"
  state :: 'a
  effects :: "effect list"

text \<open>\<^verbatim>\<open>hass.config\<close>: the host's home coordinates.\<close>

record hass_config =
  hass_latitude :: real
  hass_longitude :: real

text \<open>
  \<^verbatim>\<open>entry.data\<close>: a key that is absent is \<open>None\<close>. \<^verbatim>\<open>CONF_TRACK_HOME\<close> is read with
  \<^verbatim>\<open>.get(..., False)\<close>, the other keys by subscript (a missing key raises).
\<close>

record config_entry =
  conf_radius :: "real option"
  conf_track_home :: "bool option"
  conf_latitude :: "real option"
  conf_longitude :: "real option"

subsection \<open>Constants\<close>

definition DEFAULT_UPDATE_INTERVAL :: nat where
  "DEFAULT_UPDATE_INTERVAL = 5"

definition SIGNAL_DELETE_ENTITY :: "strike_id \<Rightarrow> string" where
  "SIGNAL_DELETE_ENTITY strike_id = ''delete_entity_'' @ strike_id"

subsection \<open>The event record\<close>

definition MetLightningEvent_init ::
  "real \<Rightarrow> real \<Rightarrow> real \<Rightarrow> strike_id \<Rightarrow> string \<Rightarrow> MetLightningEvent" where
  "MetLightningEvent_init distance latitude longitude strike_id publication_date =
     \<lparr>ev_distance = distance, ev_latitude = latitude, ev_longitude = longitude,
      ev_publication_date = publication_date, ev_strike_id = strike_id\<rparr>"

definition distance :: "MetLightningEvent \<Rightarrow> real" where
  "distance self = ev_distance self"

subsection \<open>The manager\<close>

definition MetLightningEventManager_init ::
  "real \<Rightarrow> real \<Rightarrow> real \<Rightarrow> MetLightningEventManager" where
  "MetLightningEventManager_init latitude longitude radius =
     \<lparr>mgr_latitude = latitude, mgr_longitude = longitude, mgr_managed_strike_ids = {},
      mgr_radius = radius, mgr_strikes = Map.empty\<rparr>"

text \<open>
  \<^verbatim>\<open>_create_events\<close>: the loop appends one event per identifier; the subscript
  \<^verbatim>\<open>self._strikes[strike_id]\<close> raises \<^verbatim>\<open>KeyError\<close> on a missing key, before the
  batch is handed to the host.
\<close>

fun create_events_loop ::
  "strikes \<Rightarrow> strike_id list \<Rightarrow> MetLightningEvent list \<Rightarrow> error + MetLightningEvent list" where
  "create_events_loop snapshot [] events = Inr events"
| "create_events_loop snapshot (strike_id # rest) events =
     (case snapshot strike_id of
        None \<Rightarrow> Inl (KeyError strike_id)
      | Some s \<Rightarrow>
          create_events_loop snapshot rest
            (events @ [MetLightningEvent_init (strike_distance s / 1000) (strike_lat s)
                         (strike_long s) strike_id (strike_date s)]))"

definition create_events ::
  "MetLightningEventManager \<Rightarrow> strike_id list \<Rightarrow> error + effect list" where
  "create_events self ids_to_create =
     (case create_events_loop (mgr_strikes self) ids_to_create [] of
        Inl e \<Rightarrow> Inl e
      | Inr events \<Rightarrow> Inr [AddEntities events])"

text \<open>\<^verbatim>\<open>_remove_events\<close>: one removal broadcast per identifier.\<close>

fun remove_events :: "strike_id list \<Rightarrow> effect list" where
  "remove_events [] = []"
| "remove_events (strike_id # rest) =
     DispatcherSend (SIGNAL_DELETE_ENTITY strike_id) # remove_events rest"

definition ids_to_remove :: "MetLightningEventManager \<Rightarrow> strike_id set \<Rightarrow> strike_id set" where
  "ids_to_remove self new_strike_ids = mgr_managed_strike_ids self - new_strike_ids"

definition ids_to_create :: "MetLightningEventManager \<Rightarrow> strike_id set \<Rightarrow> strike_id set" where
  "ids_to_create self new_strike_ids = new_strike_ids - mgr_managed_strike_ids self"

text \<open>
  The awaited call of \<^verbatim>\<open>async_update\<close>,
  \<^verbatim>\<open>self._client.within_radius(self._latitude, self._longitude, self._radius * 100000000000000)\<close>:
  the call as it appears in the trace, and what the provider answers to it.
\<close>

definition within_radius_call :: "MetLightningEventManager \<Rightarrow> effect" where
  "within_radius_call self =
     WithinRadius (mgr_latitude self) (mgr_longitude self) (mgr_radius self * 100000000000000)"

definition fetch_strikes :: "client \<Rightarrow> MetLightningEventManager \<Rightarrow> error + strikes" where
  "fetch_strikes within_radius self =
     within_radius (mgr_latitude self) (mgr_longitude self) (mgr_radius self * 100000000000000)"

text \<open>
  \<^verbatim>\<open>async_update\<close>. The assignment to \<^verbatim>\<open>self._strikes\<close> happens only when the
  awaited call returns; an exception of the provider leaves the function there, and no
  handler surrounds the call.
\<close>

definition async_update ::
  "client \<Rightarrow> MetLightningEventManager \<Rightarrow> MetLightningEventManager outcome" where
  "async_update within_radius self =
     (case fetch_strikes within_radius self of
        Inl e \<Rightarrow> \<lparr>raised = Some e, state = self, effects = [within_radius_call self]\<rparr>
      | Inr fetched \<Rightarrow>
          (let self1 = self\<lparr>mgr_strikes := fetched\<rparr>;
               new_strike_ids = dom (mgr_strikes self1);
               removals = remove_events (sorted_list_of_set (ids_to_remove self1 new_strike_ids))
           in case create_events self1 (sorted_list_of_set (ids_to_create self1 new_strike_ids)) of
                Inl e \<Rightarrow>
                  \<lparr>raised = Some e, state = self1,
                   effects = within_radius_call self # removals\<rparr>
              | Inr added \<Rightarrow>
                  \<lparr>raised = None,
                   state = self1\<lparr>mgr_managed_strike_ids := new_strike_ids\<rparr>,
                   effects = within_radius_call self # removals @ added\<rparr>))"

text \<open>
  \<^verbatim>\<open>async_init\<close>: one immediate cycle, then the timer. An exception of the first
  cycle leaves \<^verbatim>\<open>async_init\<close> before the timer is registered.
\<close>

definition async_init ::
  "client \<Rightarrow> MetLightningEventManager \<Rightarrow> MetLightningEventManager outcome" where
  "async_init within_radius self =
     (let first = async_update within_radius self
      in case raised first of
           Some e \<Rightarrow> first
         | None \<Rightarrow> first\<lparr>effects := effects first @ [TrackTimeInterval DEFAULT_UPDATE_INTERVAL]\<rparr>)"

text \<open>The radius arguments of the provider calls in a trace.\<close>

fun radius_args :: "effect list \<Rightarrow> real list" where
  "radius_args [] = []"
| "radius_args (WithinRadius latitude longitude radius # rest) = radius # radius_args rest"
| "radius_args (DispatcherSend signal # rest) = radius_args rest"
| "radius_args (AddEntities events # rest) = radius_args rest"
| "radius_args (TrackTimeInterval interval # rest) = radius_args rest"

subsection \<open>Setup\<close>

text \<open>
  The origin chosen by \<^verbatim>\<open>async_setup_entry\<close>: the host's home coordinates when
  \<^verbatim>\<open>entry.data.get(CONF_TRACK_HOME, False)\<close> is true, the entry's own coordinates
  otherwise (each subscript raises on a missing key, the latitude first).
\<close>

definition entry_origin :: "hass_config \<Rightarrow> config_entry \<Rightarrow> error + real \<times> real" where
  "entry_origin hass entry =
     (if conf_track_home entry = Some True
      then Inr (hass_latitude hass, hass_longitude hass)
      else (case conf_latitude entry of
              None \<Rightarrow> Inl (ConfKeyError CONF_LATITUDE)
            | Some latitude \<Rightarrow>
                (case conf_longitude entry of
                   None \<Rightarrow> Inl (ConfKeyError CONF_LONGITUDE)
                 | Some longitude \<Rightarrow> Inr (latitude, longitude))))"

text \<open>
  \<^verbatim>\<open>async_setup_entry\<close>. The state of the outcome is the manager, if one was
  constructed.
\<close>

definition async_setup_entry ::
  "hass_config \<Rightarrow> client \<Rightarrow> config_entry \<Rightarrow> MetLightningEventManager option outcome" where
  "async_setup_entry hass within_radius entry =
     (case conf_radius entry of
        None \<Rightarrow> \<lparr>raised = Some (ConfKeyError CONF_RADIUS), state = None, effects = []\<rparr>
      | Some radius \<Rightarrow>
          if radius \<le> 0 then \<lparr>raised = None, state = None, effects = []\<rparr>
          else
            (case entry_origin hass entry of
               Inl e \<Rightarrow> \<lparr>raised = Some e, state = None, effects = []\<rparr>
             | Inr (latitude, longitude) \<Rightarrow>
                 (let manager = MetLightningEventManager_init latitude longitude radius;
                      started = async_init within_radius manager
                  in \<lparr>raised = raised started, state = Some (state started),
                      effects = effects started\<rparr>)))"

subsection \<open>Test doubles for the provider\<close>

definition provider_returns :: "strikes \<Rightarrow> client" where
  "provider_returns fetched = (\<lambda>latitude longitude radius. Inr fetched)"

definition provider_fails :: "error \<Rightarrow> client" where
  "provider_fails e = (\<lambda>latitude longitude radius. Inl e)"

definition example_strike :: "real \<Rightarrow> strike" where
  "example_strike raw_distance =
     \<lparr>strike_distance = raw_distance, strike_lat = 60, strike_long = 11,
      strike_date = ''2020-06-01T12:00:00Z''\<rparr>"

section \<open>Properties\<close>

subsection \<open>Auxiliary facts\<close>

text \<open>The enumeration of a set lists only members of the set.\<close>

lemma set_sorted_list_of_set_subset: "set (sorted_list_of_set A) \<subseteq> A"
  by (cases "finite A") simp_all

lemma create_events_loop_total:
  "set ids \<subseteq> dom snapshot \<Longrightarrow> \<exists>events. create_events_loop snapshot ids acc = Inr events"
proof (induction ids arbitrary: acc)
  case Nil
  show ?case by simp
next
  case (Cons i ids)
  from Cons.prems obtain s where s: "snapshot i = Some s" by auto
  from Cons.prems have "set ids \<subseteq> dom snapshot" by simp
  from Cons.IH [OF this] show ?case by (simp add: s)
qed

lemma create_events_loop_distance:
  "create_events_loop snapshot ids acc = Inr events \<Longrightarrow> ev \<in> set events \<Longrightarrow>
   ev \<in> set acc \<or> (\<exists>s. snapshot (ev_strike_id ev) = Some s \<and> distance ev = strike_distance s / 1000)"
proof (induction ids arbitrary: acc)
  case Nil
  then show ?case by simp
next
  case (Cons i ids)
  show ?case
  proof (cases "snapshot i")
    case None
    with Cons.prems show ?thesis by simp
  next
    case (Some s)
    let ?e = "MetLightningEvent_init (strike_distance s / 1000) (strike_lat s) (strike_long s) i (strike_date s)"
    from Cons.prems Some have "create_events_loop snapshot ids (acc @ [?e]) = Inr events" by simp
    from Cons.IH [OF this Cons.prems(2)]
    have "ev \<in> set (acc @ [?e]) \<or> (\<exists>s. snapshot (ev_strike_id ev) = Some s \<and> distance ev = strike_distance s / 1000)" .
    moreover have "snapshot (ev_strike_id ?e) = Some s \<and> distance ?e = strike_distance s / 1000"
      by (simp add: Some distance_def MetLightningEvent_init_def)
    ultimately show ?thesis by auto
  qed
qed


lemma create_events_fetched:
  "\<exists>events. create_events (self\<lparr>mgr_strikes := fetched\<rparr>)
      (sorted_list_of_set (ids_to_create (self\<lparr>mgr_strikes := fetched\<rparr>) (dom fetched)))
    = Inr [AddEntities events]
    \<and> create_events_loop fetched
        (sorted_list_of_set (ids_to_create (self\<lparr>mgr_strikes := fetched\<rparr>) (dom fetched))) []
      = Inr events"
proof -
  let ?ids = "ids_to_create (self\<lparr>mgr_strikes := fetched\<rparr>) (dom fetched)"
  have "?ids \<subseteq> dom fetched"
    by (simp add: ids_to_create_def)
  with set_sorted_list_of_set_subset [of ?ids]
  have "set (sorted_list_of_set ?ids) \<subseteq> dom fetched"
    by (rule subset_trans)
  from create_events_loop_total [OF this, of "[]"]
  obtain events where "create_events_loop fetched (sorted_list_of_set ?ids) [] = Inr events" ..
  then show ?thesis
    by (simp add: create_events_def)
qed

lemma async_update_fetched:
  assumes "fetch_strikes within_radius self = Inr fetched"
  shows "\<exists>events.
     create_events_loop fetched
       (sorted_list_of_set (ids_to_create (self\<lparr>mgr_strikes := fetched\<rparr>) (dom fetched))) []
       = Inr events
     \<and> async_update within_radius self =
       \<lparr>raised = None,
        state = self\<lparr>mgr_strikes := fetched, mgr_managed_strike_ids := dom fetched\<rparr>,
        effects = within_radius_call self
          # remove_events
              (sorted_list_of_set (ids_to_remove (self\<lparr>mgr_strikes := fetched\<rparr>) (dom fetched)))
          @ [AddEntities events]\<rparr>"
proof -
  from create_events_fetched [where self = self and fetched = fetched] obtain events where
    ev: "create_events (self\<lparr>mgr_strikes := fetched\<rparr>)
      (sorted_list_of_set (ids_to_create (self\<lparr>mgr_strikes := fetched\<rparr>) (dom fetched)))
      = Inr [AddEntities events]"
    and loop: "create_events_loop fetched
        (sorted_list_of_set (ids_to_create (self\<lparr>mgr_strikes := fetched\<rparr>) (dom fetched))) []
      = Inr events"
    by blast
  have "async_update within_radius self =
       \<lparr>raised = None,
        state = self\<lparr>mgr_strikes := fetched, mgr_managed_strike_ids := dom fetched\<rparr>,
        effects = within_radius_call self
          # remove_events
              (sorted_list_of_set (ids_to_remove (self\<lparr>mgr_strikes := fetched\<rparr>) (dom fetched)))
          @ [AddEntities events]\<rparr>"
    using assms ev by (simp add: async_update_def Let_def)
  with loop show ?thesis by blast
qed

lemma async_update_failed:
  assumes "fetch_strikes within_radius self = Inl e"
  shows "async_update within_radius self =
     \<lparr>raised = Some e, state = self, effects = [within_radius_call self]\<rparr>"
  using assms by (simp add: async_update_def)

lemma radius_args_remove_events: "radius_args (remove_events ids @ rest) = radius_args rest"
  by (induction ids) simp_all

subsection \<open>The reconciliation cycle\<close>

text \<open>
  C1. After a cycle whose fetch returns a mapping of strikes, the cycle has not raised,
  the snapshot is the fetched mapping and the known-ID set is exactly the key set of
  that mapping, whatever the known-ID set was before.
\<close>

theorem known_ids_after_cycle:
  assumes "fetch_strikes within_radius self = Inr fetched"
  shows "raised (async_update within_radius self) = None
    \<and> mgr_strikes (state (async_update within_radius self)) = fetched
    \<and> mgr_managed_strike_ids (state (async_update within_radius self)) = dom fetched"
proof -
  from async_update_fetched [OF assms] obtain events where
    "async_update within_radius self =
       \<lparr>raised = None,
        state = self\<lparr>mgr_strikes := fetched, mgr_managed_strike_ids := dom fetched\<rparr>,
        effects = within_radius_call self
          # remove_events
              (sorted_list_of_set (ids_to_remove (self\<lparr>mgr_strikes := fetched\<rparr>) (dom fetched)))
          @ [AddEntities events]\<rparr>"
    by blast
  then show ?thesis by simp
qed

theorem known_ids_after_cycle_witness:
  "mgr_managed_strike_ids
     (state (async_update
        (provider_returns [''B'' \<mapsto> example_strike 2000, ''C'' \<mapsto> example_strike 3000])
        ((MetLightningEventManager_init 59 10 5)\<lparr>mgr_managed_strike_ids := {''A'', ''B''}\<rparr>)))
   = {''B'', ''C''}"
proof -
  have "fetch_strikes
      (provider_returns [''B'' \<mapsto> example_strike 2000, ''C'' \<mapsto> example_strike 3000])
      ((MetLightningEventManager_init 59 10 5)\<lparr>mgr_managed_strike_ids := {''A'', ''B''}\<rparr>)
    = Inr [''B'' \<mapsto> example_strike 2000, ''C'' \<mapsto> example_strike 3000]"
    by (simp add: fetch_strikes_def provider_returns_def)
  from known_ids_after_cycle [OF this] show ?thesis by auto
qed

text \<open>
  C2. The two sets a cycle computes from the known-ID set and the fetched identifiers are
  disjoint, and the identifiers to create together with the known ones that are not
  removed are exactly the fetched identifiers.
\<close>

theorem diff_sets_partition:
  "ids_to_create self new_strike_ids \<inter> ids_to_remove self new_strike_ids = {}
   \<and> ids_to_create self new_strike_ids
       \<union> (mgr_managed_strike_ids self - ids_to_remove self new_strike_ids)
     = new_strike_ids"
  by (auto simp: ids_to_create_def ids_to_remove_def)

text \<open>
  C3. A cycle whose fetch fails leaves the manager (known-ID set and snapshot included)
  exactly as it was; the only call it has made is the provider call itself: no removal
  broadcast and no entity registration.
\<close>

theorem failed_fetch_is_noop:
  assumes "fetch_strikes within_radius self = Inl e"
  shows "state (async_update within_radius self) = self
    \<and> effects (async_update within_radius self) = [within_radius_call self]
    \<and> (\<forall>signal. DispatcherSend signal \<notin> set (effects (async_update within_radius self)))
    \<and> (\<forall>events. AddEntities events \<notin> set (effects (async_update within_radius self)))"
  by (simp add: async_update_failed [OF assms] within_radius_call_def)

theorem failed_fetch_is_noop_witness:
  "state (async_update (provider_fails (ProviderError ''timeout''))
      \<lparr>mgr_latitude = 59, mgr_longitude = 10, mgr_managed_strike_ids = {''A'', ''B''},
       mgr_radius = 5, mgr_strikes = [''A'' \<mapsto> example_strike 1000, ''B'' \<mapsto> example_strike 2000]\<rparr>)
   = \<lparr>mgr_latitude = 59, mgr_longitude = 10, mgr_managed_strike_ids = {''A'', ''B''},
       mgr_radius = 5, mgr_strikes = [''A'' \<mapsto> example_strike 1000, ''B'' \<mapsto> example_strike 2000]\<rparr>
   \<and> effects (async_update (provider_fails (ProviderError ''timeout''))
      \<lparr>mgr_latitude = 59, mgr_longitude = 10, mgr_managed_strike_ids = {''A'', ''B''},
       mgr_radius = 5, mgr_strikes = [''A'' \<mapsto> example_strike 1000, ''B'' \<mapsto> example_strike 2000]\<rparr>)
   = [WithinRadius 59 10 500000000000000]"
proof -
  have "fetch_strikes (provider_fails (ProviderError ''timeout''))
      \<lparr>mgr_latitude = 59, mgr_longitude = 10, mgr_managed_strike_ids = {''A'', ''B''},
       mgr_radius = 5, mgr_strikes = [''A'' \<mapsto> example_strike 1000, ''B'' \<mapsto> example_strike 2000]\<rparr>
     = Inl (ProviderError ''timeout'')"
    by (simp add: fetch_strikes_def provider_fails_def)
  from failed_fetch_is_noop [OF this] show ?thesis
    by (simp add: within_radius_call_def)
qed

text \<open>
  C4, as stated (the error of a failed fetch is caught by the cycle and never raised out
  of it), fails: the cycle has no handler, and the provider's error is what
  \<^verbatim>\<open>async_update\<close> raises.
\<close>

theorem fetch_error_propagates_counterexample:
  "raised (async_update (provider_fails (ProviderError ''timeout''))
      (MetLightningEventManager_init 59 10 5)) = Some (ProviderError ''timeout'')"
  by (simp add: async_update_def fetch_strikes_def provider_fails_def)

text \<open>
  C4, amended. A cycle whose fetch fails raises the provider's error, unchanged, to its
  caller; \<^verbatim>\<open>async_init\<close> in turn raises it before the timer is registered.
\<close>

theorem fetch_error_propagates:
  assumes "fetch_strikes within_radius self = Inl e"
  shows "raised (async_update within_radius self) = Some e
    \<and> raised (async_init within_radius self) = Some e
    \<and> effects (async_init within_radius self) = [within_radius_call self]"
  by (simp add: async_update_failed [OF assms] async_init_def)

theorem fetch_error_propagates_witness:
  "raised (async_update (provider_fails (ProviderError ''parse error''))
      (MetLightningEventManager_init 59 10 5)) = Some (ProviderError ''parse error'')
   \<and> effects (async_init (provider_fails (ProviderError ''parse error''))
      (MetLightningEventManager_init 59 10 5)) = [WithinRadius 59 10 500000000000000]"
proof -
  have "fetch_strikes (provider_fails (ProviderError ''parse error''))
      (MetLightningEventManager_init 59 10 5) = Inl (ProviderError ''parse error'')"
    by (simp add: fetch_strikes_def provider_fails_def)
  from fetch_error_propagates [OF this] show ?thesis
    by (simp add: within_radius_call_def MetLightningEventManager_init_def)
qed

text \<open>
  C5, as stated (the radius passed to the provider is the configured radius times 100000),
  fails: for a configured radius of 1 the provider is called with 100000000000000.
\<close>

theorem radius_argument_counterexample:
  "radius_args (effects (async_update (provider_returns Map.empty)
      (MetLightningEventManager_init 59 10 1))) = [100000000000000]
   \<and> radius_args (effects (async_update (provider_returns Map.empty)
      (MetLightningEventManager_init 59 10 1)))
     \<noteq> [mgr_radius (MetLightningEventManager_init 59 10 1) * 100000]"
  by (simp add: async_update_def fetch_strikes_def provider_returns_def
      MetLightningEventManager_init_def ids_to_remove_def ids_to_create_def create_events_def
      within_radius_call_def)

text \<open>
  C5, amended. Every cycle calls the provider exactly once, and the radius argument of
  that call is the configured radius times 100000000000000.
\<close>

theorem radius_argument:
  "radius_args (effects (async_update within_radius self))
     = [mgr_radius self * 100000000000000]"
proof (cases "fetch_strikes within_radius self")
  case (Inl e)
  then show ?thesis
    by (simp add: async_update_failed within_radius_call_def)
next
  case (Inr fetched)
  from async_update_fetched [OF this] obtain events where
    "async_update within_radius self =
       \<lparr>raised = None,
        state = self\<lparr>mgr_strikes := fetched, mgr_managed_strike_ids := dom fetched\<rparr>,
        effects = within_radius_call self
          # remove_events
              (sorted_list_of_set (ids_to_remove (self\<lparr>mgr_strikes := fetched\<rparr>) (dom fetched)))
          @ [AddEntities events]\<rparr>"
    by blast
  then show ?thesis
    by (simp add: within_radius_call_def radius_args_remove_events)
qed

text \<open>
  C6. Every event a cycle hands to the host was built from the fetched strike of its
  identifier, and its distance accessor returns that strike's raw distance divided by
  1000. The witness is the case of the specification: raw distance 12345 surfaces as
  12.345.
\<close>

theorem created_event_distance:
  assumes "fetch_strikes within_radius self = Inr fetched"
    and "AddEntities events \<in> set (effects (async_update within_radius self))"
    and "ev \<in> set events"
  shows "\<exists>s. fetched (ev_strike_id ev) = Some s \<and> distance ev = strike_distance s / 1000"
proof -
  from async_update_fetched [OF assms(1)] obtain created where
    loop: "create_events_loop fetched
       (sorted_list_of_set (ids_to_create (self\<lparr>mgr_strikes := fetched\<rparr>) (dom fetched))) []
       = Inr created"
    and upd: "async_update within_radius self =
       \<lparr>raised = None,
        state = self\<lparr>mgr_strikes := fetched, mgr_managed_strike_ids := dom fetched\<rparr>,
        effects = within_radius_call self
          # remove_events
              (sorted_list_of_set (ids_to_remove (self\<lparr>mgr_strikes := fetched\<rparr>) (dom fetched)))
          @ [AddEntities created]\<rparr>"
    by blast
  have "AddEntities events \<notin> set (remove_events ids)" for ids
    by (induction ids) simp_all
  with assms(2) upd have "events = created"
    by (auto simp: within_radius_call_def)
  with assms(3) have "ev \<in> set created" by simp
  from create_events_loop_distance [OF loop this] show ?thesis by simp
qed

theorem created_event_distance_witness:
  "effects (async_update (provider_returns [''S1'' \<mapsto> example_strike 12345])
      (MetLightningEventManager_init 59 10 5))
   = [WithinRadius 59 10 500000000000000,
      AddEntities [MetLightningEvent_init 12.345 60 11 ''S1'' ''2020-06-01T12:00:00Z'']]
   \<and> distance (MetLightningEvent_init 12.345 60 11 ''S1'' ''2020-06-01T12:00:00Z'') = 12.345
   \<and> (\<exists>s. [''S1'' \<mapsto> example_strike 12345]
            (ev_strike_id (MetLightningEvent_init 12.345 60 11 ''S1'' ''2020-06-01T12:00:00Z''))
          = Some s
        \<and> distance (MetLightningEvent_init 12.345 60 11 ''S1'' ''2020-06-01T12:00:00Z'')
          = strike_distance s / 1000)"
proof -
  let ?c = "provider_returns [''S1'' \<mapsto> example_strike 12345]"
  let ?m = "MetLightningEventManager_init 59 10 5"
  let ?ev = "MetLightningEvent_init 12.345 60 11 ''S1'' ''2020-06-01T12:00:00Z''"
  have h1: "fetch_strikes ?c ?m = Inr [''S1'' \<mapsto> example_strike 12345]"
    by (simp add: fetch_strikes_def provider_returns_def)
  have eff: "effects (async_update ?c ?m) = [WithinRadius 59 10 500000000000000, AddEntities [?ev]]"
    by (simp add: async_update_def fetch_strikes_def provider_returns_def
        MetLightningEventManager_init_def ids_to_remove_def ids_to_create_def create_events_def
        within_radius_call_def example_strike_def)
  then have h2: "AddEntities [?ev] \<in> set (effects (async_update ?c ?m))"
    by simp
  have h3: "?ev \<in> set [?ev]"
    by simp
  have d: "distance ?ev = 12.345"
    by (simp add: distance_def MetLightningEvent_init_def)
  from created_event_distance [OF h1 h2 h3] eff d show ?thesis
    by blast
qed

text \<open>
  C7. When two consecutive cycles both fetch the same mapping, the second one computes an
  empty set of identifiers to remove and an empty set to create: it sends no removal
  broadcast, registers an empty batch and leaves the manager as the first cycle left it.
\<close>

theorem second_identical_cycle_is_silent:
  assumes "fetch_strikes c1 self = Inr R"
    and "fetch_strikes c2 (state (async_update c1 self)) = Inr R"
  shows "ids_to_remove ((state (async_update c1 self))\<lparr>mgr_strikes := R\<rparr>) (dom R) = {}
    \<and> ids_to_create ((state (async_update c1 self))\<lparr>mgr_strikes := R\<rparr>) (dom R) = {}
    \<and> effects (async_update c2 (state (async_update c1 self)))
        = [within_radius_call self, AddEntities []]
    \<and> state (async_update c2 (state (async_update c1 self))) = state (async_update c1 self)"
proof -
  let ?s1 = "state (async_update c1 self)"
  from async_update_fetched [OF assms(1)] obtain ev1 where
    "async_update c1 self =
       \<lparr>raised = None,
        state = self\<lparr>mgr_strikes := R, mgr_managed_strike_ids := dom R\<rparr>,
        effects = within_radius_call self
          # remove_events (sorted_list_of_set (ids_to_remove (self\<lparr>mgr_strikes := R\<rparr>) (dom R)))
          @ [AddEntities ev1]\<rparr>"
    by blast
  then have s1: "?s1 = self\<lparr>mgr_strikes := R, mgr_managed_strike_ids := dom R\<rparr>"
    by simp
  have rm: "ids_to_remove (?s1\<lparr>mgr_strikes := R\<rparr>) (dom R) = {}"
    by (simp add: s1 ids_to_remove_def)
  have cr: "ids_to_create (?s1\<lparr>mgr_strikes := R\<rparr>) (dom R) = {}"
    by (simp add: s1 ids_to_create_def)
  have call: "within_radius_call ?s1 = within_radius_call self"
    by (simp add: s1 within_radius_call_def)
  from async_update_fetched [OF assms(2)] obtain ev2 where
    loop: "create_events_loop R
       (sorted_list_of_set (ids_to_create (?s1\<lparr>mgr_strikes := R\<rparr>) (dom R))) [] = Inr ev2"
    and upd: "async_update c2 ?s1 =
       \<lparr>raised = None,
        state = ?s1\<lparr>mgr_strikes := R, mgr_managed_strike_ids := dom R\<rparr>,
        effects = within_radius_call ?s1
          # remove_events (sorted_list_of_set (ids_to_remove (?s1\<lparr>mgr_strikes := R\<rparr>) (dom R)))
          @ [AddEntities ev2]\<rparr>"
    by blast
  from loop have "ev2 = []"
    by (simp add: cr)
  with upd have e2: "effects (async_update c2 ?s1) = [within_radius_call self, AddEntities []]"
    by (simp add: rm call)
  from upd have "state (async_update c2 ?s1) = ?s1\<lparr>mgr_strikes := R, mgr_managed_strike_ids := dom R\<rparr>"
    by simp
  also have "\<dots> = ?s1"
    by (simp add: s1)
  finally show ?thesis
    using rm cr e2 by simp
qed

theorem second_identical_cycle_is_silent_witness:
  "effects (async_update (provider_returns [''S1'' \<mapsto> example_strike 12345])
      (state (async_update (provider_returns [''S1'' \<mapsto> example_strike 12345])
         (MetLightningEventManager_init 59 10 5))))
   = [WithinRadius 59 10 500000000000000, AddEntities []]"
proof -
  have h1: "fetch_strikes (provider_returns [''S1'' \<mapsto> example_strike 12345])
      (MetLightningEventManager_init 59 10 5) = Inr [''S1'' \<mapsto> example_strike 12345]"
    by (simp add: fetch_strikes_def provider_returns_def)
  have h2: "fetch_strikes (provider_returns [''S1'' \<mapsto> example_strike 12345])
      (state (async_update (provider_returns [''S1'' \<mapsto> example_strike 12345])
         (MetLightningEventManager_init 59 10 5))) = Inr [''S1'' \<mapsto> example_strike 12345]"
    by (simp add: fetch_strikes_def provider_returns_def)
  from second_identical_cycle_is_silent [OF h1 h2] show ?thesis
    by (simp add: within_radius_call_def MetLightningEventManager_init_def)
qed

text \<open>
  C10. The identifiers to create are keys of the freshly stored snapshot, so is every
  identifier the creation loop visits, and the loop ends with a batch of events: the
  missing-key branch is not taken, for any manager and any fetched mapping.
\<close>

theorem created_ids_have_strikes:
  "ids_to_create (self\<lparr>mgr_strikes := fetched\<rparr>) (dom fetched)
     \<subseteq> dom (mgr_strikes (self\<lparr>mgr_strikes := fetched\<rparr>))
   \<and> set (sorted_list_of_set (ids_to_create (self\<lparr>mgr_strikes := fetched\<rparr>) (dom fetched)))
     \<subseteq> dom (mgr_strikes (self\<lparr>mgr_strikes := fetched\<rparr>))
   \<and> (\<exists>events. create_events (self\<lparr>mgr_strikes := fetched\<rparr>)
         (sorted_list_of_set (ids_to_create (self\<lparr>mgr_strikes := fetched\<rparr>) (dom fetched)))
        = Inr [AddEntities events])"
proof -
  let ?ids = "ids_to_create (self\<lparr>mgr_strikes := fetched\<rparr>) (dom fetched)"
  have 1: "?ids \<subseteq> dom (mgr_strikes (self\<lparr>mgr_strikes := fetched\<rparr>))"
    by (simp add: ids_to_create_def)
  with set_sorted_list_of_set_subset [of ?ids]
  have 2: "set (sorted_list_of_set ?ids) \<subseteq> dom (mgr_strikes (self\<lparr>mgr_strikes := fetched\<rparr>))"
    by (rule subset_trans)
  have 3: "\<exists>events. create_events (self\<lparr>mgr_strikes := fetched\<rparr>) (sorted_list_of_set ?ids)
        = Inr [AddEntities events]"
    using create_events_fetched [where self = self and fetched = fetched] by blast
  from 1 2 3 show ?thesis by blast
qed

subsection \<open>Setup of a config entry\<close>

text \<open>
  A cycle never changes the origin or the radius of the manager, and the first call of
  a cycle, hence of \<^verbatim>\<open>async_init\<close>, is the provider call.
\<close>

lemma async_update_origin:
  "mgr_latitude (state (async_update within_radius self)) = mgr_latitude self
   \<and> mgr_longitude (state (async_update within_radius self)) = mgr_longitude self
   \<and> mgr_radius (state (async_update within_radius self)) = mgr_radius self"
proof (cases "fetch_strikes within_radius self")
  case (Inl e)
  then show ?thesis
    by (simp add: async_update_failed)
next
  case (Inr fetched)
  from async_update_fetched [OF this] obtain events where
    "async_update within_radius self =
       \<lparr>raised = None,
        state = self\<lparr>mgr_strikes := fetched, mgr_managed_strike_ids := dom fetched\<rparr>,
        effects = within_radius_call self
          # remove_events
              (sorted_list_of_set (ids_to_remove (self\<lparr>mgr_strikes := fetched\<rparr>) (dom fetched)))
          @ [AddEntities events]\<rparr>"
    by blast
  then show ?thesis by simp
qed

lemma async_update_effects_hd:
  "\<exists>rest. effects (async_update within_radius self) = within_radius_call self # rest"
proof (cases "fetch_strikes within_radius self")
  case (Inl e)
  then show ?thesis
    by (simp add: async_update_failed)
next
  case (Inr fetched)
  from async_update_fetched [OF this] obtain events where
    "async_update within_radius self =
       \<lparr>raised = None,
        state = self\<lparr>mgr_strikes := fetched, mgr_managed_strike_ids := dom fetched\<rparr>,
        effects = within_radius_call self
          # remove_events
              (sorted_list_of_set (ids_to_remove (self\<lparr>mgr_strikes := fetched\<rparr>) (dom fetched)))
          @ [AddEntities events]\<rparr>"
    by blast
  then show ?thesis by simp
qed

lemma async_init_state: "state (async_init within_radius self) = state (async_update within_radius self)"
  by (simp add: async_init_def Let_def split: option.split)

lemma async_init_effects_hd:
  "\<exists>rest. effects (async_init within_radius self) = within_radius_call self # rest"
  using async_update_effects_hd [of within_radius self]
  by (auto simp: async_init_def Let_def split: option.split)

lemma async_setup_entry_started:
  assumes "conf_radius entry = Some radius" and "0 < radius"
    and "entry_origin hass entry = Inr (la, lo)"
  shows "async_setup_entry hass within_radius entry =
     \<lparr>raised = raised (async_init within_radius (MetLightningEventManager_init la lo radius)),
      state = Some (state (async_init within_radius (MetLightningEventManager_init la lo radius))),
      effects = effects (async_init within_radius (MetLightningEventManager_init la lo radius))\<rparr>"
  using assms by (simp add: async_setup_entry_def Let_def)

lemma async_setup_entry_origin:
  assumes "conf_radius entry = Some radius" and "0 < radius"
    and "entry_origin hass entry = Inr (la, lo)"
  shows "\<exists>manager. state (async_setup_entry hass within_radius entry) = Some manager
     \<and> mgr_latitude manager = la \<and> mgr_longitude manager = lo"
  using async_setup_entry_started [OF assms, of within_radius]
    async_update_origin [of within_radius "MetLightningEventManager_init la lo radius"]
  by (simp add: async_init_state MetLightningEventManager_init_def)

text \<open>
  C8. For an entry with a radius: when the radius is at most 0, setup returns without
  constructing a manager and without any call (no fetch, no timer); a manager exists or
  a call was made only when the radius is positive; and with a positive radius and an
  origin to read (the track-home option, or both coordinates of the entry) the manager is
  constructed and the first fetch is made.
\<close>

theorem nonpositive_radius_disables:
  assumes "conf_radius entry = Some radius"
  shows "(radius \<le> 0 \<longrightarrow>
            async_setup_entry hass within_radius entry = \<lparr>raised = None, state = None, effects = []\<rparr>)
    \<and> (state (async_setup_entry hass within_radius entry) \<noteq> None \<longrightarrow> 0 < radius)
    \<and> (effects (async_setup_entry hass within_radius entry) \<noteq> [] \<longrightarrow> 0 < radius)
    \<and> (0 < radius \<longrightarrow>
          conf_track_home entry = Some True
            \<or> (conf_latitude entry \<noteq> None \<and> conf_longitude entry \<noteq> None) \<longrightarrow>
          state (async_setup_entry hass within_radius entry) \<noteq> None
          \<and> effects (async_setup_entry hass within_radius entry) \<noteq> [])"
proof -
  have off: "async_setup_entry hass within_radius entry = \<lparr>raised = None, state = None, effects = []\<rparr>"
    if "radius \<le> 0"
    using assms that by (simp add: async_setup_entry_def)
  have on: "state (async_setup_entry hass within_radius entry) \<noteq> None
          \<and> effects (async_setup_entry hass within_radius entry) \<noteq> []"
    if pos: "0 < radius"
      and origin: "conf_track_home entry = Some True
            \<or> (conf_latitude entry \<noteq> None \<and> conf_longitude entry \<noteq> None)"
  proof -
    from origin obtain la lo where "entry_origin hass entry = Inr (la, lo)"
      by (cases "conf_track_home entry = Some True") (auto simp: entry_origin_def)
    from async_setup_entry_started [OF assms pos this, of within_radius]
      async_init_effects_hd [of within_radius "MetLightningEventManager_init la lo radius"]
    show ?thesis by auto
  qed
  have only: "0 < radius"
    if "state (async_setup_entry hass within_radius entry) \<noteq> None
        \<or> effects (async_setup_entry hass within_radius entry) \<noteq> []"
  proof (rule ccontr)
    assume "\<not> 0 < radius"
    then have "radius \<le> 0" by simp
    from off [OF this] that show False by simp
  qed
  from off on only show ?thesis by blast
qed

theorem nonpositive_radius_disables_witness:
  "async_setup_entry \<lparr>hass_latitude = 59, hass_longitude = 10\<rparr>
      (provider_returns [''S1'' \<mapsto> example_strike 12345])
      \<lparr>conf_radius = Some 0, conf_track_home = Some True,
       conf_latitude = None, conf_longitude = None\<rparr>
    = \<lparr>raised = None, state = None, effects = []\<rparr>
   \<and> state (async_setup_entry \<lparr>hass_latitude = 59, hass_longitude = 10\<rparr>
      (provider_returns [''S1'' \<mapsto> example_strike 12345])
      \<lparr>conf_radius = Some 5, conf_track_home = Some True,
       conf_latitude = None, conf_longitude = None\<rparr>) \<noteq> None
   \<and> effects (async_setup_entry \<lparr>hass_latitude = 59, hass_longitude = 10\<rparr>
      (provider_returns [''S1'' \<mapsto> example_strike 12345])
      \<lparr>conf_radius = Some 5, conf_track_home = Some True,
       conf_latitude = None, conf_longitude = None\<rparr>) \<noteq> []"
proof -
  let ?hass = "\<lparr>hass_latitude = 59, hass_longitude = 10\<rparr>"
  let ?c = "provider_returns [''S1'' \<mapsto> example_strike 12345]"
  let ?off = "\<lparr>conf_radius = Some 0, conf_track_home = Some True,
       conf_latitude = None, conf_longitude = None\<rparr>"
  let ?on = "\<lparr>conf_radius = Some 5, conf_track_home = Some True,
       conf_latitude = None, conf_longitude = None\<rparr>"
  have r0: "conf_radius ?off = Some 0" by simp
  have r5: "conf_radius ?on = Some 5" by simp
  from nonpositive_radius_disables [OF r0, of ?hass ?c]
  have 1: "async_setup_entry ?hass ?c ?off = \<lparr>raised = None, state = None, effects = []\<rparr>"
    by simp
  from nonpositive_radius_disables [OF r5, of ?hass ?c]
  have 2: "state (async_setup_entry ?hass ?c ?on) \<noteq> None
      \<and> effects (async_setup_entry ?hass ?c ?on) \<noteq> []"
    by simp
  from 1 2 show ?thesis by simp
qed

text \<open>
  C9. For an entry with a positive radius: with the track-home option set, the manager is
  constructed with the host's home latitude and longitude; with the option absent or
  false, with the latitude and longitude of the entry.
\<close>

theorem track_home_origin:
  assumes "conf_radius entry = Some radius" and "0 < radius"
  shows "(conf_track_home entry = Some True \<longrightarrow>
            (\<exists>manager. state (async_setup_entry hass within_radius entry) = Some manager
               \<and> mgr_latitude manager = hass_latitude hass
               \<and> mgr_longitude manager = hass_longitude hass))
    \<and> (conf_track_home entry \<noteq> Some True \<longrightarrow>
          conf_latitude entry = Some la \<longrightarrow> conf_longitude entry = Some lo \<longrightarrow>
            (\<exists>manager. state (async_setup_entry hass within_radius entry) = Some manager
               \<and> mgr_latitude manager = la
               \<and> mgr_longitude manager = lo))"
proof -
  have home: "\<exists>manager. state (async_setup_entry hass within_radius entry) = Some manager
               \<and> mgr_latitude manager = hass_latitude hass
               \<and> mgr_longitude manager = hass_longitude hass"
    if "conf_track_home entry = Some True"
  proof -
    from that have "entry_origin hass entry = Inr (hass_latitude hass, hass_longitude hass)"
      by (simp add: entry_origin_def)
    from async_setup_entry_origin [OF assms this] show ?thesis .
  qed
  have own: "\<exists>manager. state (async_setup_entry hass within_radius entry) = Some manager
               \<and> mgr_latitude manager = la \<and> mgr_longitude manager = lo"
    if "conf_track_home entry \<noteq> Some True" "conf_latitude entry = Some la" "conf_longitude entry = Some lo"
  proof -
    from that have "entry_origin hass entry = Inr (la, lo)"
      by (simp add: entry_origin_def)
    from async_setup_entry_origin [OF assms this] show ?thesis .
  qed
  from home own show ?thesis by blast
qed

theorem track_home_origin_witness:
  "(\<exists>manager. state (async_setup_entry \<lparr>hass_latitude = 59, hass_longitude = 10\<rparr>
        (provider_returns [''S1'' \<mapsto> example_strike 12345])
        \<lparr>conf_radius = Some 5, conf_track_home = Some True,
         conf_latitude = Some 48, conf_longitude = Some 2\<rparr>) = Some manager
      \<and> mgr_latitude manager = 59 \<and> mgr_longitude manager = 10)
   \<and> (\<exists>manager. state (async_setup_entry \<lparr>hass_latitude = 59, hass_longitude = 10\<rparr>
        (provider_returns [''S1'' \<mapsto> example_strike 12345])
        \<lparr>conf_radius = Some 5, conf_track_home = None,
         conf_latitude = Some 48, conf_longitude = Some 2\<rparr>) = Some manager
      \<and> mgr_latitude manager = 48 \<and> mgr_longitude manager = 2)
   \<and> (\<exists>manager. state (async_setup_entry \<lparr>hass_latitude = 59, hass_longitude = 10\<rparr>
        (provider_returns [''S1'' \<mapsto> example_strike 12345])
        \<lparr>conf_radius = Some 5, conf_track_home = Some False,
         conf_latitude = Some 48, conf_longitude = Some 2\<rparr>) = Some manager
      \<and> mgr_latitude manager = 48 \<and> mgr_longitude manager = 2)"
proof -
  let ?hass = "\<lparr>hass_latitude = 59, hass_longitude = 10\<rparr>"
  let ?c = "provider_returns [''S1'' \<mapsto> example_strike 12345]"
  let ?home = "\<lparr>conf_radius = Some 5, conf_track_home = Some True,
         conf_latitude = Some 48, conf_longitude = Some 2\<rparr>"
  let ?absent = "\<lparr>conf_radius = Some 5, conf_track_home = None,
         conf_latitude = Some 48, conf_longitude = Some 2\<rparr>"
  let ?false = "\<lparr>conf_radius = Some 5, conf_track_home = Some False,
         conf_latitude = Some 48, conf_longitude = Some 2\<rparr>"
  have pos: "(0::real) < 5" by simp
  have 1: "conf_radius ?home = Some 5" by simp
  have 2: "conf_radius ?absent = Some 5" by simp
  have 3: "conf_radius ?false = Some 5" by simp
  from track_home_origin [OF 1 pos, of ?hass ?c 48 2]
    track_home_origin [OF 2 pos, of ?hass ?c 48 2]
    track_home_origin [OF 3 pos, of ?hass ?c 48 2]
  show ?thesis by simp
qed

end
